theory Spec2Isabelle
  imports Main "HOL-Library.Word"
begin

unbundle bit_operations_syntax

chapter \<open>FastCollection: a shallow embedding of the shared-memory containers\<close>

text \<open>
  The C++ sources keep every record inside one memory-mapped file and address it by its
  byte offset from the mapping's base. The embedding follows that picture:
  \<^item> fixed-width fields are words (\<open>uint32_t\<close> is \<open>32 word\<close>, \<open>uint64_t\<close> is \<open>64 word\<close>;
    the signed \<open>int32_t ttl\<close> is a \<open>32 word\<close> read through \<open>sint\<close>);
  \<open>int64_t\<close> offsets are only ever compared with 0 and copied, so they are \<open>int\<close>;
  \<^item> the mapping is a total function from offsets to records (reading any address
    yields whatever bytes are there), updated with \<open>h(a := r)\<close>;
  \<^item> a byte buffer argument \<open>(const uint8_t* data, size_t size)\<close> is a
    \<open>u8 list option\<close>: \<open>None\<close> is the null pointer, \<open>Some bs\<close> the \<open>size\<close> bytes;
  \<^item> \<open>current_timestamp_ns()\<close> is read from the state: a container operation runs
    on the container together with the sequence of values the clock is going to
    return (\<open>clock\<close>) and the number of readings made so far (\<open>ticks\<close>), and every
    call of \<open>current_timestamp_ns()\<close> in the source takes the next reading; the
    functions of an entry are given the reading they make as their argument \<open>now\<close>;
  \<^item> a \<open>while\<close> loop that follows links is a \<open>partial_function (option)\<close>: on a
    cyclic chain the C++ loop never returns and the model yields \<open>None\<close>;
  \<^item> a thrown exception is \<open>Inl\<close> of the error code.
\<close>

section \<open>fc\_common.h: constants, errors, hashing\<close>

type_synonym u8 = "8 word"
type_synonym u32 = "32 word"
type_synonym i32 = "32 word"
type_synonym u64 = "64 word"

datatype ErrorCode =
    SUCCESS
  | MEMORY_ALLOCATION_FAILED
  | FILE_CREATION_FAILED
  | FILE_OPEN_FAILED
  | SERIALIZATION_FAILED
  | DESERIALIZATION_FAILED
  | INDEX_OUT_OF_BOUNDS
  | KEY_NOT_FOUND
  | NOT_FOUND
  | COLLECTION_FULL
  | LOCK_TIMEOUT
  | INVALID_ARGUMENT
  | INTERNAL_ERROR
  | TIMEOUT
  | ELEMENT_EXPIRED

definition TTL_INFINITE :: i32 where
  "TTL_INFINITE = - 1"

definition DEFAULT_GROWTH_SIZE :: u64 where
  "DEFAULT_GROWTH_SIZE = 16 * 1024 * 1024"

definition NULL_OFFSET :: int where
  "NULL_OFFSET = - 1"

definition SIZE_MAX :: u64 where
  "SIZE_MAX = - 1"

text \<open>\<open>compute_hash\<close>: FNV-1a over the bytes, in 32-bit arithmetic.\<close>

fun compute_hash_from :: "u32 \<Rightarrow> u8 list \<Rightarrow> u32" where
  "compute_hash_from hash [] = hash"
| "compute_hash_from hash (b # bs) = compute_hash_from ((hash XOR ucast b) * 16777619) bs"

definition compute_hash :: "u8 list \<Rightarrow> u32" where
  "compute_hash bs = compute_hash_from 2166136261 bs"

record CollectionStats =
  st_size :: u64
  st_read_count :: u64
  st_write_count :: u64
  st_hit_count :: u64
  st_miss_count :: u64

section \<open>fc\_serialization.h: entries, nodes, headers\<close>

definition STATE_EMPTY :: u32 where "STATE_EMPTY = 0"
definition STATE_WRITING :: u32 where "STATE_WRITING = 1"
definition STATE_VALID :: u32 where "STATE_VALID = 2"
definition STATE_DELETED :: u32 where "STATE_DELETED = 3"
definition STATE_EXPIRED :: u32 where "STATE_EXPIRED = 4"

record ShmEntry =
  state :: u32
  data_size :: u32
  hash_code :: u32
  ttl_seconds :: i32
  created_at :: u64
  expires_at :: u64
  version :: u64

definition mark_valid :: "ShmEntry \<Rightarrow> ShmEntry" where
  "mark_valid e = e\<lparr>state := STATE_VALID\<rparr>"

definition mark_deleted :: "ShmEntry \<Rightarrow> ShmEntry" where
  "mark_deleted e = e\<lparr>state := STATE_DELETED\<rparr>"

definition mark_expired :: "ShmEntry \<Rightarrow> ShmEntry" where
  "mark_expired e = e\<lparr>state := STATE_EXPIRED\<rparr>"

definition is_valid :: "ShmEntry \<Rightarrow> bool" where
  "is_valid e = (state e = STATE_VALID)"

definition is_expired :: "u64 \<Rightarrow> ShmEntry \<Rightarrow> bool" where
  "is_expired now e =
     (if state e = STATE_EXPIRED then True
      else if state e \<noteq> STATE_VALID then False
      else if expires_at e = 0 then False
      else now \<ge> expires_at e)"

definition is_alive :: "u64 \<Rightarrow> ShmEntry \<Rightarrow> bool" where
  "is_alive now e =
     (if \<not> is_valid e then False
      else if expires_at e = 0 then True
      else now < expires_at e)"

text \<open>
  \<open>set_ttl\<close>: \<open>static_cast<uint64_t>(ttl)\<close> of the signed \<open>ttl\<close> is \<open>scast\<close>; the
  product and the sum wrap in 64 bits.
\<close>

definition set_ttl :: "u64 \<Rightarrow> i32 \<Rightarrow> ShmEntry \<Rightarrow> ShmEntry" where
  "set_ttl now ttl e =
     (if sint ttl < 0
      then e\<lparr>ttl_seconds := ttl, created_at := now, expires_at := 0\<rparr>
      else e\<lparr>ttl_seconds := ttl, created_at := now,
             expires_at := now + (scast ttl :: u64) * 1000000000\<rparr>)"

text \<open>\<open>remaining_ttl_seconds\<close> returns an \<open>int64_t\<close>; the quotient is below \<open>2^63\<close>.\<close>

definition remaining_ttl_seconds :: "u64 \<Rightarrow> ShmEntry \<Rightarrow> int" where
  "remaining_ttl_seconds now e =
     (if sint (ttl_seconds e) < 0 then - 1
      else if expires_at e = 0 then - 1
      else if now \<ge> expires_at e then 0
      else uint ((expires_at e - now) div 1000000000))"

text \<open>The default-constructed \<open>ShmEntry\<close>.\<close>

definition ShmEntry_init :: ShmEntry where
  "ShmEntry_init =
     \<lparr>state = STATE_EMPTY, data_size = 0, hash_code = 0, ttl_seconds = TTL_INFINITE,
      created_at = 0, expires_at = 0, version = 0\<rparr>"

text \<open>
  \<open>ShmNode\<close> and \<open>ShmKeyValue\<close>: the entry, the two links and the inline bytes
  (\<open>data[0]\<close>, the flexible array; for a key-value record the key bytes followed by
  the value bytes). \<open>ShmKeyValue\<close> has the fields of \<open>ShmNode\<close> and the two sizes, so
  it is written as an extension of the node record.
\<close>

record ShmNode =
  entry :: ShmEntry
  next_offset :: int
  prev_offset :: int
  data :: "u8 list"

record ShmKeyValue = ShmNode +
  key_size :: u32
  value_size :: u32

record ShmBucket =
  head_offset :: int
  bucket_count_field :: u32
  bucket_size :: u32

definition ShmBucket_init :: ShmBucket where
  "ShmBucket_init = \<lparr>head_offset = NULL_OFFSET, bucket_count_field = 0, bucket_size = 0\<rparr>"

definition MAGIC :: u32 where "MAGIC = 0xFAC01EC0"
definition CURRENT_VERSION :: u32 where "CURRENT_VERSION = 1"

record CollectionHeader =
  magic :: u32
  hdr_version :: u32
  hdr_created_at :: u64
  modified_at :: u64
  hdr_size :: u64
  capacity :: u64

record ListHeader = CollectionHeader +
  list_head_offset :: int
  list_tail_offset :: int

record HashTableHeader = CollectionHeader +
  bucket_count :: u32
  load_factor_percent :: u32
  total_bytes :: u64

record DequeHeader = CollectionHeader +
  front_offset :: int
  back_offset :: int

definition DEFAULT_BUCKET_COUNT :: u32 where "DEFAULT_BUCKET_COUNT = 16384"
definition DEFAULT_LOAD_FACTOR :: u32 where "DEFAULT_LOAD_FACTOR = 75"

definition header_is_valid :: "'a CollectionHeader_scheme \<Rightarrow> bool" where
  "header_is_valid h = (magic h = MAGIC \<and> hdr_version h = CURRENT_VERSION)"

definition ListHeader_init :: "u64 \<Rightarrow> ListHeader" where
  "ListHeader_init now =
     \<lparr>magic = MAGIC, hdr_version = CURRENT_VERSION, hdr_created_at = now, modified_at = now,
      hdr_size = 0, capacity = 0,
      list_head_offset = NULL_OFFSET, list_tail_offset = NULL_OFFSET\<rparr>"

definition HashTableHeader_init :: "u64 \<Rightarrow> u32 \<Rightarrow> HashTableHeader" where
  "HashTableHeader_init now buckets =
     \<lparr>magic = MAGIC, hdr_version = CURRENT_VERSION, hdr_created_at = now, modified_at = now,
      hdr_size = 0, capacity = 0,
      bucket_count = (if buckets > 0 then buckets else DEFAULT_BUCKET_COUNT),
      load_factor_percent = DEFAULT_LOAD_FACTOR, total_bytes = 0\<rparr>"

definition DequeHeader_init :: "u64 \<Rightarrow> DequeHeader" where
  "DequeHeader_init now =
     \<lparr>magic = MAGIC, hdr_version = CURRENT_VERSION, hdr_created_at = now, modified_at = now,
      hdr_size = 0, capacity = 0,
      front_offset = NULL_OFFSET, back_offset = NULL_OFFSET\<rparr>"

section \<open>fc\_common.cpp: the mapped-file manager and the library surface\<close>

text \<open>
  A managed mapped file keeps a directory of named objects. The file system maps a path
  to the file stored there. \<open>find<T>(name)\<close> is a lookup in the directory; the object
  comes back only when it is of the type asked for (\<open>find<CollectionHeader>\<close> sees the
  \<open>CollectionHeader\<close> base of each of the three header types).
\<close>

datatype named_object =
    ListHeader_obj ListHeader
  | HashTableHeader_obj HashTableHeader
  | DequeHeader_obj DequeHeader
  | Buckets_obj "ShmBucket list"
  | Atomic_u64_obj u64

type_synonym mapped_file = "string \<rightharpoonup> named_object"
type_synonym file_system = "string \<rightharpoonup> mapped_file"

definition find_CollectionHeader :: "mapped_file \<Rightarrow> string \<Rightarrow> CollectionHeader option" where
  "find_CollectionHeader f name =
     (case f name of
        Some (ListHeader_obj h) \<Rightarrow> Some (CollectionHeader.truncate h)
      | Some (HashTableHeader_obj h) \<Rightarrow> Some (CollectionHeader.truncate h)
      | Some (DequeHeader_obj h) \<Rightarrow> Some (CollectionHeader.truncate h)
      | _ \<Rightarrow> None)"

definition find_ListHeader :: "mapped_file \<Rightarrow> string \<Rightarrow> ListHeader option" where
  "find_ListHeader f name = (case f name of Some (ListHeader_obj h) \<Rightarrow> Some h | _ \<Rightarrow> None)"

definition find_HashTableHeader :: "mapped_file \<Rightarrow> string \<Rightarrow> HashTableHeader option" where
  "find_HashTableHeader f name =
     (case f name of Some (HashTableHeader_obj h) \<Rightarrow> Some h | _ \<Rightarrow> None)"

definition find_DequeHeader :: "mapped_file \<Rightarrow> string \<Rightarrow> DequeHeader option" where
  "find_DequeHeader f name = (case f name of Some (DequeHeader_obj h) \<Rightarrow> Some h | _ \<Rightarrow> None)"

definition find_ShmBucket :: "mapped_file \<Rightarrow> string \<Rightarrow> ShmBucket list option" where
  "find_ShmBucket f name = (case f name of Some (Buckets_obj bs) \<Rightarrow> Some bs | _ \<Rightarrow> None)"

definition find_atomic_u64 :: "mapped_file \<Rightarrow> string \<Rightarrow> u64 option" where
  "find_atomic_u64 f name = (case f name of Some (Atomic_u64_obj c) \<Rightarrow> Some c | _ \<Rightarrow> None)"

text \<open>
  The constructor of \<open>MMapFileManager\<close>. \<open>io_ok\<close> says whether the library's create or
  open call succeeds; its \<open>interprocess_exception\<close> is rethrown as
  \<open>FILE_CREATION_FAILED\<close>. Opening a path that holds no file fails. The result is the
  file system and the mapped file.
\<close>

definition MMapFileManager_ctor ::
  "bool \<Rightarrow> file_system \<Rightarrow> string \<Rightarrow> bool \<Rightarrow> ErrorCode + (file_system \<times> mapped_file)" where
  "MMapFileManager_ctor io_ok fs filename create_new =
     (if create_new \<or> fs filename = None then
        (let fs1 = (if fs filename \<noteq> None then fs(filename := None) else fs) in
         if io_ok then Inr (fs1(filename \<mapsto> Map.empty), Map.empty)
         else Inl FILE_CREATION_FAILED)
      else
        (case fs filename of
           Some f \<Rightarrow> if io_ok then Inr (fs, f) else Inl FILE_CREATION_FAILED
         | None \<Rightarrow> Inl FILE_CREATION_FAILED))"

text \<open>
  The five container constructors, as far as the file is concerned: each looks its
  header up under its own name and constructs it when it is missing; the hash
  containers add their bucket array, the stack its ABA counter. The result is the file
  system with the file written back.
\<close>

definition FastList_ctor ::
  "bool \<Rightarrow> u64 \<Rightarrow> file_system \<Rightarrow> string \<Rightarrow> bool \<Rightarrow> ErrorCode + file_system" where
  "FastList_ctor io_ok now fs mmap_file create_new =
     (case MMapFileManager_ctor io_ok fs mmap_file create_new of
        Inl e \<Rightarrow> Inl e
      | Inr (fs1, f) \<Rightarrow>
          (case find_ListHeader f ''list_header'' of
             Some h \<Rightarrow> if \<not> header_is_valid h then Inl INTERNAL_ERROR else Inr fs1
           | None \<Rightarrow>
               Inr (fs1(mmap_file \<mapsto> f(''list_header'' \<mapsto> ListHeader_obj (ListHeader_init now))))))"

definition construct_buckets :: "mapped_file \<Rightarrow> string \<Rightarrow> u32 \<Rightarrow> mapped_file" where
  "construct_buckets f name n =
     (case find_ShmBucket f name of
        Some bs \<Rightarrow> f
      | None \<Rightarrow> f(name \<mapsto> Buckets_obj (replicate (unat n) ShmBucket_init)))"

definition FastSet_ctor ::
  "bool \<Rightarrow> u64 \<Rightarrow> file_system \<Rightarrow> string \<Rightarrow> bool \<Rightarrow> u32 \<Rightarrow> ErrorCode + file_system" where
  "FastSet_ctor io_ok now fs mmap_file create_new buckets =
     (case MMapFileManager_ctor io_ok fs mmap_file create_new of
        Inl e \<Rightarrow> Inl e
      | Inr (fs1, f) \<Rightarrow>
          (case find_HashTableHeader f ''set_header'' of
             Some h \<Rightarrow>
               if \<not> header_is_valid h then Inl INTERNAL_ERROR
               else Inr (fs1(mmap_file \<mapsto> construct_buckets f ''set_buckets'' (bucket_count h)))
           | None \<Rightarrow>
               (let h = HashTableHeader_init now buckets;
                    f1 = f(''set_header'' \<mapsto> HashTableHeader_obj h)
                in Inr (fs1(mmap_file \<mapsto> construct_buckets f1 ''set_buckets'' (bucket_count h))))))"

definition FastMap_ctor ::
  "bool \<Rightarrow> u64 \<Rightarrow> file_system \<Rightarrow> string \<Rightarrow> bool \<Rightarrow> u32 \<Rightarrow> ErrorCode + file_system" where
  "FastMap_ctor io_ok now fs mmap_file create_new buckets =
     (case MMapFileManager_ctor io_ok fs mmap_file create_new of
        Inl e \<Rightarrow> Inl e
      | Inr (fs1, f) \<Rightarrow>
          (case find_HashTableHeader f ''map_header'' of
             Some h \<Rightarrow>
               if \<not> header_is_valid h then Inl INTERNAL_ERROR
               else Inr (fs1(mmap_file \<mapsto> construct_buckets f ''map_buckets'' (bucket_count h)))
           | None \<Rightarrow>
               (let h = HashTableHeader_init now buckets;
                    f1 = f(''map_header'' \<mapsto> HashTableHeader_obj h)
                in Inr (fs1(mmap_file \<mapsto> construct_buckets f1 ''map_buckets'' (bucket_count h))))))"

definition FastQueue_ctor ::
  "bool \<Rightarrow> u64 \<Rightarrow> file_system \<Rightarrow> string \<Rightarrow> bool \<Rightarrow> ErrorCode + file_system" where
  "FastQueue_ctor io_ok now fs mmap_file create_new =
     (case MMapFileManager_ctor io_ok fs mmap_file create_new of
        Inl e \<Rightarrow> Inl e
      | Inr (fs1, f) \<Rightarrow>
          (case find_DequeHeader f ''queue_header'' of
             Some h \<Rightarrow> if \<not> header_is_valid h then Inl INTERNAL_ERROR else Inr fs1
           | None \<Rightarrow>
               Inr (fs1(mmap_file \<mapsto> f(''queue_header'' \<mapsto> DequeHeader_obj (DequeHeader_init now))))))"

definition construct_aba_tag :: "mapped_file \<Rightarrow> mapped_file" where
  "construct_aba_tag f =
     (case find_atomic_u64 f ''stack_aba_tag'' of
        Some c \<Rightarrow> f
      | None \<Rightarrow> f(''stack_aba_tag'' \<mapsto> Atomic_u64_obj 0))"

definition FastStack_ctor ::
  "bool \<Rightarrow> u64 \<Rightarrow> file_system \<Rightarrow> string \<Rightarrow> bool \<Rightarrow> ErrorCode + file_system" where
  "FastStack_ctor io_ok now fs mmap_file create_new =
     (case MMapFileManager_ctor io_ok fs mmap_file create_new of
        Inl e \<Rightarrow> Inl e
      | Inr (fs1, f) \<Rightarrow>
          (case find_DequeHeader f ''stack_header'' of
             Some h \<Rightarrow>
               if \<not> header_is_valid h then Inl INTERNAL_ERROR
               else Inr (fs1(mmap_file \<mapsto> construct_aba_tag f))
           | None \<Rightarrow>
               Inr (fs1(mmap_file \<mapsto>
                      construct_aba_tag (f(''stack_header'' \<mapsto> DequeHeader_obj (DequeHeader_init now)))))))"

text \<open>
  \<open>isValidCollectionFile\<close>: existence, a read-only open (\<open>io_ok\<close>; an exception is
  caught and gives \<open>false\<close>), then the lookup of the object named \<open>header\<close>.
\<close>

definition isValidCollectionFile :: "bool \<Rightarrow> file_system \<Rightarrow> string \<Rightarrow> bool" where
  "isValidCollectionFile io_ok fs filename =
     (case fs filename of
        None \<Rightarrow> False
      | Some f \<Rightarrow>
          if \<not> io_ok then False
          else (case find_CollectionHeader f ''header'' of
                  Some h \<Rightarrow> header_is_valid h
                | None \<Rightarrow> False))"

text \<open>
  \<open>MMapFileManager::allocate\<close> and \<open>grow\<close>. The mapped-file library is not part of the
  repository; its calls are parameters that act on the state \<open>'f\<close> of the library and
  the backing file, and each says how it ended. \<open>bip_allocate\<close> returns the block or
  throws \<open>bip::bad_alloc\<close> (\<open>None\<close>). The static \<open>bip_grow\<close> returns its \<open>bool\<close> or throws
  an \<open>interprocess_exception\<close> (\<open>None\<close>). The opening of the file (\<open>bip_open\<close>) returns
  (\<open>True\<close>) or throws an \<open>interprocess_exception\<close> (\<open>False\<close>). \<open>bip_close\<close> is
  \<open>file_.reset()\<close>. Each call hands on the state it leaves, so a call that failed may
  succeed when it is made again.
\<close>

datatype exn = FastCollectionException ErrorCode | bad_alloc | interprocess_exception













section \<open>The state of a container\<close>

text \<open>
  What the five classes share: the header found in the file (\<open>header_\<close>), the mapping
  seen through \<open>file_manager_\<close> (\<open>mem\<close>: the record at each offset; \<open>live\<close>: the offsets
  of the blocks allocated and not yet deallocated) and the process-local \<open>stats_\<close>.
  The hash containers add \<open>buckets_\<close>, the list its access cache, the stack its ABA
  counter. Pointers to records are \<open>int option\<close>: \<open>None\<close> is \<open>nullptr\<close>, \<open>Some a\<close> the
  record at offset \<open>a\<close>.

  An operation also reads the clock. \<open>clock c i\<close> is the value the \<open>i\<close>-th call of
  \<open>current_timestamp_ns()\<close> returns and \<open>ticks c\<close> counts the calls made so far, so that
  \<open>current_timestamp_ns c\<close> is the next reading and \<open>tick c\<close> the state after it has been taken.
\<close>

record ('h, 'n) collection =
  header :: 'h
  mem :: "int \<Rightarrow> 'n"
  live :: "int set"
  stats :: CollectionStats
  clock :: "nat \<Rightarrow> u64"
  ticks :: nat

record 'n hash_collection = "(HashTableHeader, 'n) collection" +
  buckets :: "nat \<Rightarrow> ShmBucket"

record AccessCache =
  last_index :: u64
  last_offset :: int

record FastList = "(ListHeader, ShmNode) collection" +
  access_cache :: AccessCache

type_synonym FastQueue = "(DequeHeader, ShmNode) collection"

record FastStack = "(DequeHeader, ShmNode) collection" +
  aba_tag :: u64

type_synonym FastSet = "ShmNode hash_collection"
type_synonym FastMap = "ShmKeyValue hash_collection"

definition current_timestamp_ns :: "('h, 'n, 'z) collection_scheme \<Rightarrow> u64" where
  "current_timestamp_ns c = clock c (ticks c)"

definition tick :: "('h, 'n, 'z) collection_scheme \<Rightarrow> ('h, 'n, 'z) collection_scheme" where
  "tick c = c\<lparr>ticks := Suc (ticks c)\<rparr>"

text \<open>
  \<open>is_alive()\<close> and \<open>is_expired()\<close> call \<open>current_timestamp_ns()\<close> exactly when the state
  is Valid and \<open>expires_at\<close> is not 0. \<open>checked e c\<close> is the state after either of them
  has run on the entry \<open>e\<close> with the reading \<open>current_timestamp_ns c\<close>.
\<close>

definition reads_clock :: "ShmEntry \<Rightarrow> bool" where
  "reads_clock e = (state e = STATE_VALID \<and> expires_at e \<noteq> 0)"

definition checked :: "ShmEntry \<Rightarrow> ('h, 'n, 'z) collection_scheme \<Rightarrow> ('h, 'n, 'z) collection_scheme" where
  "checked e c = (if reads_clock e then tick c else c)"

definition node_at_offset :: "int \<Rightarrow> int option" where
  "node_at_offset offset = (if offset < 0 then None else Some offset)"

text \<open>
  \<open>allocate_node\<close>: \<open>alloc\<close> is what \<open>file_manager_->allocate(total)\<close> did, an exception
  or the block (\<open>None\<close> is a null pointer). The placement \<open>new\<close> runs the constructors
  of \<open>ShmEntry\<close> and \<open>ShmNode\<close>; the inline bytes stay as they were.
\<close>

definition allocate_node ::
  "exn + int option \<Rightarrow> ('h, ShmNode, 'z) collection_scheme \<Rightarrow>
     exn + (int \<times> ('h, ShmNode, 'z) collection_scheme)" where
  "allocate_node alloc c =
     (case alloc of
        Inl e \<Rightarrow> Inl e
      | Inr None \<Rightarrow> Inl (FastCollectionException MEMORY_ALLOCATION_FAILED)
      | Inr (Some p) \<Rightarrow>
          Inr (p, c\<lparr>mem := (mem c)(p := (mem c p)\<lparr>entry := ShmEntry_init,
                                                 next_offset := NULL_OFFSET,
                                                 prev_offset := NULL_OFFSET\<rparr>),
                     live := insert p (live c)\<rparr>))"

definition free_node ::
  "int option \<Rightarrow> ('h, 'n, 'z) collection_scheme \<Rightarrow> ('h, 'n, 'z) collection_scheme" where
  "free_node node c = (case node of None \<Rightarrow> c | Some a \<Rightarrow> c\<lparr>live := live c - {a}\<rparr>)"

text \<open>\<open>memcpy(dst + off, src, n)\<close> on the inline bytes.\<close>

definition memcpy_at :: "u8 list \<Rightarrow> nat \<Rightarrow> u8 list \<Rightarrow> u8 list" where
  "memcpy_at dst off src = take off dst @ src @ drop (off + length src) dst"

text \<open>
  \<open>copy_to_node\<close> with the reading that its \<open>set_ttl\<close> makes, and its use on the node
  at an offset of a container, which takes that reading from the clock.
\<close>

definition copy_to_node :: "u64 \<Rightarrow> ShmNode \<Rightarrow> u8 list \<Rightarrow> i32 \<Rightarrow> ShmNode" where
  "copy_to_node t node bs ttl =
     node\<lparr>entry := mark_valid (set_ttl t ttl
                ((entry node)\<lparr>data_size := of_nat (length bs), hash_code := compute_hash bs\<rparr>)),
          data := memcpy_at (data node) 0 bs\<rparr>"

definition write_node ::
  "int \<Rightarrow> u8 list \<Rightarrow> i32 \<Rightarrow> ('h, ShmNode, 'z) collection_scheme \<Rightarrow> ('h, ShmNode, 'z) collection_scheme" where
  "write_node node bs ttl c =
     tick (c\<lparr>mem := (mem c)(node := copy_to_node (current_timestamp_ns c) (mem c node) bs ttl)\<rparr>)"


text \<open>
  The test every lookup repeats after \<open>is_alive\<close>: hash, stored size and \<open>memcmp\<close> of
  the first \<open>size\<close> bytes. The stored size is a \<open>uint32_t\<close> compared with the \<open>size_t\<close>
  argument.
\<close>

definition node_matches :: "ShmNode \<Rightarrow> u8 list \<Rightarrow> u32 \<Rightarrow> bool" where
  "node_matches node bs hash =
     (hash_code (entry node) = hash \<and>
      unat (data_size (entry node)) = length bs \<and>
      take (length bs) (data node) = bs)"

definition set_next ::
  "(int \<Rightarrow> 'a ShmNode_scheme) \<Rightarrow> int \<Rightarrow> int \<Rightarrow> (int \<Rightarrow> 'a ShmNode_scheme)" where
  "set_next h a v = h(a := (h a)\<lparr>next_offset := v\<rparr>)"

definition set_prev ::
  "(int \<Rightarrow> 'a ShmNode_scheme) \<Rightarrow> int \<Rightarrow> int \<Rightarrow> (int \<Rightarrow> 'a ShmNode_scheme)" where
  "set_prev h a v = h(a := (h a)\<lparr>prev_offset := v\<rparr>)"

definition set_deleted ::
  "(int \<Rightarrow> 'a ShmNode_scheme) \<Rightarrow> int \<Rightarrow> (int \<Rightarrow> 'a ShmNode_scheme)" where
  "set_deleted h a = h(a := (h a)\<lparr>entry := mark_deleted (entry (h a))\<rparr>)"

text \<open>
  Counter updates of the header and of the statistics (\<open>fetch_add\<close>, \<open>fetch_sub\<close>), and
  \<open>header_->modified_at = current_timestamp_ns()\<close>.
\<close>

definition size_add ::
  "u64 \<Rightarrow> ('a CollectionHeader_scheme, 'n, 'z) collection_scheme \<Rightarrow>
     ('a CollectionHeader_scheme, 'n, 'z) collection_scheme" where
  "size_add d c =
     c\<lparr>header := (header c)\<lparr>hdr_size := hdr_size (header c) + d\<rparr>,
       stats := (stats c)\<lparr>st_size := st_size (stats c) + d\<rparr>\<rparr>"

definition touch ::
  "('a CollectionHeader_scheme, 'n, 'z) collection_scheme \<Rightarrow>
     ('a CollectionHeader_scheme, 'n, 'z) collection_scheme" where
  "touch c = tick (c\<lparr>header := (header c)\<lparr>modified_at := current_timestamp_ns c\<rparr>\<rparr>)"

definition count_write :: "('h, 'n, 'z) collection_scheme \<Rightarrow> ('h, 'n, 'z) collection_scheme" where
  "count_write c = c\<lparr>stats := (stats c)\<lparr>st_write_count := st_write_count (stats c) + 1\<rparr>\<rparr>"

definition count_miss :: "('h, 'n, 'z) collection_scheme \<Rightarrow> ('h, 'n, 'z) collection_scheme" where
  "count_miss c = c\<lparr>stats := (stats c)\<lparr>st_miss_count := st_miss_count (stats c) + 1\<rparr>\<rparr>"

definition count_hit :: "('h, 'n, 'z) collection_scheme \<Rightarrow> ('h, 'n, 'z) collection_scheme" where
  "count_hit c =
     c\<lparr>stats := (stats c)\<lparr>st_read_count := st_read_count (stats c) + 1,
                            st_hit_count := st_hit_count (stats c) + 1\<rparr>\<rparr>"

definition count_read_miss :: "('h, 'n, 'z) collection_scheme \<Rightarrow> ('h, 'n, 'z) collection_scheme" where
  "count_read_miss c =
     c\<lparr>stats := (stats c)\<lparr>st_miss_count := st_miss_count (stats c) + 1,
                            st_read_count := st_read_count (stats c) + 1\<rparr>\<rparr>"

section \<open>Chains\<close>

text \<open>
  The offsets a walk along \<open>next_offset\<close> visits, from \<open>p\<close> to the first negative
  offset: \<open>chain h p as\<close> says that this walk ends and visits exactly \<open>as\<close>.
  \<open>dchain h b p as\<close> says in addition that each record's \<open>prev_offset\<close> is the offset
  visited before it, \<open>b\<close> for the first. \<open>steady clk t e\<close> says that the entry \<open>e\<close> is
  alive at every clock reading from the \<open>t\<close>-th on, or at none of them: no reading from
  the \<open>t\<close>-th on is taken across the instant at which \<open>e\<close> expires.
\<close>

fun chain :: "(int \<Rightarrow> 'a ShmNode_scheme) \<Rightarrow> int \<Rightarrow> int list \<Rightarrow> bool" where
  "chain h p [] = (p < 0)"
| "chain h p (a # as) = (p = a \<and> 0 \<le> a \<and> chain h (next_offset (h a)) as)"

fun dchain :: "(int \<Rightarrow> 'a ShmNode_scheme) \<Rightarrow> int \<Rightarrow> int \<Rightarrow> int list \<Rightarrow> bool" where
  "dchain h b p [] = (p < 0)"
| "dchain h b p (a # as) =
     (p = a \<and> 0 \<le> a \<and> prev_offset (h a) = b \<and> dchain h a (next_offset (h a)) as)"


section \<open>fc\_queue.cpp\<close>

text \<open>
  \<open>skip_expired_front\<close>: the loop unlinks the front node while it is expired; each
  test reads the clock anew.
\<close>

definition queue_unlink_front :: "int \<Rightarrow> FastQueue \<Rightarrow> FastQueue" where
  "queue_unlink_front front q =
     (let next = next_offset (mem q front);
          q1 = q\<lparr>header := (header q)\<lparr>front_offset := next\<rparr>\<rparr>;
          q2 = (if next \<ge> 0 then q1\<lparr>mem := set_prev (mem q1) next NULL_OFFSET\<rparr>
                else q1\<lparr>header := (header q1)\<lparr>back_offset := NULL_OFFSET\<rparr>\<rparr>);
          q3 = q2\<lparr>mem := set_deleted (mem q2) front\<rparr>;
          q4 = free_node (Some front) q3
      in size_add (- 1) q4)"







section \<open>Walks shared by the list, the queue and the stack\<close>

text \<open>
  \<open>size()\<close> of the list, the queue and the stack is the same loop from the first
  offset: it counts the nodes that \<open>is_alive\<close> accepts, each with a reading of its
  own. \<open>forEach\<close> of the queue and of the stack is the same loop too: it calls the
  callback on the bytes of each alive node until the callback answers \<open>false\<close>; the
  result is the sequence of calls it made. Counters are \<open>size_t\<close>, here \<open>64 word\<close>.
\<close>

partial_function (option) count_alive ::
  "('h, 'a ShmNode_scheme, 'z) collection_scheme \<Rightarrow> int \<Rightarrow> u64 \<Rightarrow>
     (('h, 'a ShmNode_scheme, 'z) collection_scheme \<times> u64) option" where
  "count_alive c current alive_count =
     (if current \<ge> 0 then
        (case node_at_offset current of
           None \<Rightarrow> Some (c, alive_count)
         | Some node \<Rightarrow>
             count_alive (checked (entry (mem c node)) c) (next_offset (mem c node))
               (if is_alive (current_timestamp_ns c) (entry (mem c node)) then alive_count + 1 else alive_count))
      else Some (c, alive_count))"

definition node_payload :: "'a ShmNode_scheme \<Rightarrow> u8 list" where
  "node_payload node = take (unat (data_size (entry node))) (data node)"

partial_function (option) forEach_from ::
  "('h, ShmNode, 'z) collection_scheme \<Rightarrow> (u8 list \<Rightarrow> bool) \<Rightarrow> int \<Rightarrow> u8 list list \<Rightarrow>
     (('h, ShmNode, 'z) collection_scheme \<times> u8 list list) option" where
  "forEach_from c callback current calls =
     (if current \<ge> 0 then
        (case node_at_offset current of
           None \<Rightarrow> Some (c, calls)
         | Some node \<Rightarrow>
             if is_alive (current_timestamp_ns c) (entry (mem c node)) then
               (if \<not> callback (node_payload (mem c node))
                then Some (checked (entry (mem c node)) c, calls @ [node_payload (mem c node)])
                else forEach_from (checked (entry (mem c node)) c) callback
                       (next_offset (mem c node)) (calls @ [node_payload (mem c node)]))
             else forEach_from (checked (entry (mem c node)) c) callback
                    (next_offset (mem c node)) calls)
      else Some (c, calls))"

definition FastQueue_size :: "FastQueue \<Rightarrow> (FastQueue \<times> u64) option" where
  "FastQueue_size q = count_alive q (front_offset (header q)) 0"

definition FastQueue_forEach ::
  "FastQueue \<Rightarrow> (u8 list \<Rightarrow> bool) \<Rightarrow> (FastQueue \<times> u8 list list) option" where
  "FastQueue_forEach q callback = forEach_from q callback (front_offset (header q)) []"

section \<open>fc\_list.cpp\<close>

text \<open>
  Indices are \<open>size_t\<close>, here \<open>64 word\<close>; \<open>SIZE_MAX\<close> is the word \<open>- 1\<close>, all bits set.
  \<open>node_at_index\<close> is \<open>const\<close> but writes the \<open>mutable\<close> access cache. Its loops are the
  four functions that follow: the two that skip expired nodes from the cached node, and
  the two full traversals, whose result is the offset of the node with live index
  \<open>index\<close>, or \<open>None\<close> when the walk reaches the end of the chain.
\<close>

partial_function (option) skip_expired_next :: "FastList \<Rightarrow> int \<Rightarrow> (FastList \<times> int) option" where
  "skip_expired_next l next =
     (case node_at_offset next of
        None \<Rightarrow> Some (l, next)
      | Some node \<Rightarrow>
          if is_expired (current_timestamp_ns l) (entry (mem l node))
          then skip_expired_next (checked (entry (mem l node)) l) (next_offset (mem l node))
          else Some (checked (entry (mem l node)) l, next))"

partial_function (option) skip_expired_prev :: "FastList \<Rightarrow> int \<Rightarrow> (FastList \<times> int) option" where
  "skip_expired_prev l prev =
     (case node_at_offset prev of
        None \<Rightarrow> Some (l, prev)
      | Some node \<Rightarrow>
          if is_expired (current_timestamp_ns l) (entry (mem l node))
          then skip_expired_prev (checked (entry (mem l node)) l) (prev_offset (mem l node))
          else Some (checked (entry (mem l node)) l, prev))"

partial_function (option) traverse_from_head ::
  "FastList \<Rightarrow> u64 \<Rightarrow> int \<Rightarrow> u64 \<Rightarrow> (FastList \<times> int option) option" where
  "traverse_from_head l index current live_index =
     (if current \<ge> 0 then
        (case node_at_offset current of
           None \<Rightarrow> Some (l, None)
         | Some node \<Rightarrow>
             if is_alive (current_timestamp_ns l) (entry (mem l node)) then
               (if live_index = index then Some (checked (entry (mem l node)) l, Some current)
                else traverse_from_head (checked (entry (mem l node)) l) index
                       (next_offset (mem l node)) (live_index + 1))
             else traverse_from_head (checked (entry (mem l node)) l) index
                    (next_offset (mem l node)) live_index)
      else Some (l, None))"

partial_function (option) traverse_from_tail ::
  "FastList \<Rightarrow> u64 \<Rightarrow> int \<Rightarrow> u64 \<Rightarrow> (FastList \<times> int option) option" where
  "traverse_from_tail l index current live_index =
     (if current \<ge> 0 then
        (case node_at_offset current of
           None \<Rightarrow> Some (l, None)
         | Some node \<Rightarrow>
             if is_alive (current_timestamp_ns l) (entry (mem l node)) then
               (if live_index = index then Some (checked (entry (mem l node)) l, Some current)
                else traverse_from_tail (checked (entry (mem l node)) l) index
                       (prev_offset (mem l node)) (live_index - 1))
             else traverse_from_tail (checked (entry (mem l node)) l) index
                    (prev_offset (mem l node)) live_index)
      else Some (l, None))"

definition cache_set :: "u64 \<Rightarrow> int \<Rightarrow> FastList \<Rightarrow> FastList" where
  "cache_set i off l = l\<lparr>access_cache := \<lparr>last_index = i, last_offset = off\<rparr>\<rparr>"

definition cache_invalidate :: "FastList \<Rightarrow> FastList" where
  "cache_invalidate l = l\<lparr>access_cache := \<lparr>last_index = SIZE_MAX, last_offset = - 1\<rparr>\<rparr>"

text \<open>The full traversal from the better end, after the cache has been tried.\<close>

definition node_at_index_full :: "FastList \<Rightarrow> u64 \<Rightarrow> (FastList \<times> int option) option" where
  "node_at_index_full l index =
     (let list_size = hdr_size (header l) in
      if index < list_size div 2 then
        (case traverse_from_head l index (list_head_offset (header l)) 0 of
           None \<Rightarrow> None
         | Some (l1, None) \<Rightarrow> Some (l1, None)
         | Some (l1, Some current) \<Rightarrow> Some (cache_set index current l1, Some current))
      else
        (case traverse_from_tail l index (list_tail_offset (header l)) (list_size - 1) of
           None \<Rightarrow> None
         | Some (l1, None) \<Rightarrow> Some (l1, None)
         | Some (l1, Some current) \<Rightarrow> Some (cache_set index current l1, Some current)))"

text \<open>Sequential backward access through the cache, then the full traversal.\<close>

definition node_at_index_backward :: "FastList \<Rightarrow> u64 \<Rightarrow> (FastList \<times> int option) option" where
  "node_at_index_backward l index =
     (if index = last_index (access_cache l) - 1 \<and> last_index (access_cache l) > 0 then
        (case node_at_offset (last_offset (access_cache l)) of
           None \<Rightarrow> node_at_index_full l index
         | Some cached \<Rightarrow>
             (case skip_expired_prev l (prev_offset (mem l cached)) of
                None \<Rightarrow> None
              | Some (l1, prev) \<Rightarrow>
                  (case node_at_offset prev of
                     None \<Rightarrow> node_at_index_full l1 index
                   | Some node \<Rightarrow>
                       if is_alive (current_timestamp_ns l1) (entry (mem l1 node))
                       then Some (cache_set index prev (checked (entry (mem l1 node)) l1), Some node)
                       else node_at_index_full (checked (entry (mem l1 node)) l1) index)))
      else node_at_index_full l index)"

definition node_at_index :: "FastList \<Rightarrow> u64 \<Rightarrow> (FastList \<times> int option) option" where
  "node_at_index l index =
     (if last_index (access_cache l) \<noteq> SIZE_MAX \<and> last_offset (access_cache l) \<ge> 0 then
        (if index = last_index (access_cache l) + 1 then
           (case node_at_offset (last_offset (access_cache l)) of
              None \<Rightarrow> node_at_index_backward l index
            | Some cached \<Rightarrow>
                (case skip_expired_next l (next_offset (mem l cached)) of
                   None \<Rightarrow> None
                 | Some (l1, next) \<Rightarrow>
                     (case node_at_offset next of
                        None \<Rightarrow> node_at_index_backward l1 index
                      | Some node \<Rightarrow>
                          if is_alive (current_timestamp_ns l1) (entry (mem l1 node))
                          then Some (cache_set index next (checked (entry (mem l1 node)) l1), Some node)
                          else node_at_index_backward (checked (entry (mem l1 node)) l1) index)))
         else node_at_index_backward l index)
      else node_at_index_full l index)"

definition link_node :: "int \<Rightarrow> int option \<Rightarrow> int option \<Rightarrow> FastList \<Rightarrow> FastList" where
  "link_node node_offset prev next l =
     (let l1 = (case prev of
                  Some prev_offset' \<Rightarrow>
                    l\<lparr>mem := set_next (set_prev (mem l) node_offset prev_offset') prev_offset' node_offset\<rparr>
                | None \<Rightarrow>
                    l\<lparr>mem := set_prev (mem l) node_offset NULL_OFFSET,
                      header := (header l)\<lparr>list_head_offset := node_offset\<rparr>\<rparr>)
      in case next of
           Some next_offset' \<Rightarrow>
             l1\<lparr>mem := set_prev (set_next (mem l1) node_offset next_offset') next_offset' node_offset\<rparr>
         | None \<Rightarrow>
             l1\<lparr>mem := set_next (mem l1) node_offset NULL_OFFSET,
                header := (header l1)\<lparr>list_tail_offset := node_offset\<rparr>\<rparr>)"

definition FastList_add ::
  "exn + int option \<Rightarrow> FastList \<Rightarrow> u8 list option \<Rightarrow> i32 \<Rightarrow> exn + (FastList \<times> bool)" where
  "FastList_add alloc l bytes ttl =
     (case bytes of
        None \<Rightarrow> Inr (l, False)
      | Some bs \<Rightarrow>
          if length bs = 0 then Inr (l, False)
          else (case allocate_node alloc l of
            Inl e \<Rightarrow> Inl e
          | Inr (node, l1) \<Rightarrow>
              (let l2 = write_node node bs ttl l1;
                   tail = list_tail_offset (header l2);
                   l3 = link_node node (node_at_offset tail) None l2
               in Inr (count_write (touch (size_add 1 l3)), True))))"

definition addFirst ::
  "exn + int option \<Rightarrow> FastList \<Rightarrow> u8 list option \<Rightarrow> i32 \<Rightarrow> exn + (FastList \<times> bool)" where
  "addFirst alloc l bytes ttl =
     (case bytes of
        None \<Rightarrow> Inr (l, False)
      | Some bs \<Rightarrow>
          if length bs = 0 then Inr (l, False)
          else (case allocate_node alloc l of
            Inl e \<Rightarrow> Inl e
          | Inr (node, l1) \<Rightarrow>
              (let l2 = write_node node bs ttl l1;
                   head = list_head_offset (header l2);
                   l3 = link_node node None (node_at_offset head) l2
               in Inr (count_write (touch (size_add 1 l3)), True))))"

text \<open>
  \<open>add(index, data, size, ttl)\<close>. The bound is the header's \<open>size\<close> counter. \<open>None\<close>
  means that \<open>node_at_index\<close> did not return.
\<close>

definition FastList_add_at ::
  "exn + int option \<Rightarrow> FastList \<Rightarrow> u64 \<Rightarrow> u8 list option \<Rightarrow> i32 \<Rightarrow>
     (exn + (FastList \<times> bool)) option" where
  "FastList_add_at alloc l index bytes ttl =
     (case bytes of
        None \<Rightarrow> Some (Inr (l, False))
      | Some bs \<Rightarrow>
          if length bs = 0 then Some (Inr (l, False))
          else
            (let current_size = hdr_size (header l) in
             if index > current_size then Some (Inr (l, False))
             else if index = current_size then Some (FastList_add alloc l bytes ttl)
             else if index = 0 then Some (addFirst alloc l bytes ttl)
             else
               (case node_at_index l index of
                  None \<Rightarrow> None
                | Some (l1, None) \<Rightarrow> Some (Inr (l1, False))
                | Some (l1, Some next_node) \<Rightarrow>
                    (let prev_node = node_at_offset (prev_offset (mem l1 next_node)) in
                     case allocate_node alloc l1 of
                       Inl e \<Rightarrow> Some (Inl e)
                     | Inr (node, l2) \<Rightarrow>
                         (let l3 = write_node node bs ttl l2;
                              l4 = link_node node prev_node (Some next_node) l3
                          in Some (Inr (count_write (touch (size_add 1 l4)), True)))))))"

definition FastList_size :: "FastList \<Rightarrow> (FastList \<times> u64) option" where
  "FastList_size l = count_alive l (list_head_offset (header l)) 0"

text \<open>The list's \<open>forEach\<close> also hands the live index to the callback.\<close>

partial_function (option) FastList_forEach_from ::
  "FastList \<Rightarrow> (u8 list \<Rightarrow> u64 \<Rightarrow> bool) \<Rightarrow> int \<Rightarrow> u64 \<Rightarrow> (u8 list \<times> u64) list \<Rightarrow>
     (FastList \<times> (u8 list \<times> u64) list) option" where
  "FastList_forEach_from l callback current index calls =
     (if current \<ge> 0 then
        (case node_at_offset current of
           None \<Rightarrow> Some (l, calls)
         | Some node \<Rightarrow>
             if is_alive (current_timestamp_ns l) (entry (mem l node)) then
               (if \<not> callback (node_payload (mem l node)) index
                then Some (checked (entry (mem l node)) l, calls @ [(node_payload (mem l node), index)])
                else FastList_forEach_from (checked (entry (mem l node)) l) callback
                       (next_offset (mem l node)) (index + 1)
                       (calls @ [(node_payload (mem l node), index)]))
             else FastList_forEach_from (checked (entry (mem l node)) l) callback
                    (next_offset (mem l node)) index calls)
      else Some (l, calls))"

definition FastList_forEach ::
  "FastList \<Rightarrow> (u8 list \<Rightarrow> u64 \<Rightarrow> bool) \<Rightarrow> (FastList \<times> (u8 list \<times> u64) list) option" where
  "FastList_forEach l callback =
     FastList_forEach_from l callback (list_head_offset (header l)) 0 []"

section \<open>fc\_stack.cpp\<close>


definition FastStack_size :: "FastStack \<Rightarrow> (FastStack \<times> u64) option" where
  "FastStack_size s = count_alive s (front_offset (header s)) 0"

definition FastStack_forEach ::
  "FastStack \<Rightarrow> (u8 list \<Rightarrow> bool) \<Rightarrow> (FastStack \<times> u8 list list) option" where
  "FastStack_forEach s callback = forEach_from s callback (front_offset (header s)) []"


section \<open>Bucket chains of the hash containers\<close>

text \<open>
  \<open>get_bucket\<close>: the index \<open>hash & (bucket_count - 1)\<close> into the bucket array. The loops
  over a bucket chain compute the record's address from the offset directly. \<open>size()\<close>
  and \<open>forEach\<close> of the set and of the map are the same two nested loops, so they are
  written once, over any record with the node's fields; \<open>payload\<close> is what the callback
  is given. The inner \<open>forEach\<close> loop also says whether the callback asked to go on.
\<close>

definition get_bucket :: "'n hash_collection \<Rightarrow> u32 \<Rightarrow> nat" where
  "get_bucket c hash = unat (hash AND (bucket_count (header c) - 1))"

partial_function (option) bucket_count_alive ::
  "('a ShmNode_scheme) hash_collection \<Rightarrow> int \<Rightarrow> u64 \<Rightarrow>
     (('a ShmNode_scheme) hash_collection \<times> u64) option" where
  "bucket_count_alive c current alive =
     (if current \<ge> 0 then
        bucket_count_alive (checked (entry (mem c current)) c) (next_offset (mem c current))
          (if is_alive (current_timestamp_ns c) (entry (mem c current)) then alive + 1 else alive)
      else Some (c, alive))"

fun size_buckets ::
  "('a ShmNode_scheme) hash_collection \<Rightarrow> nat list \<Rightarrow> u64 \<Rightarrow>
     (('a ShmNode_scheme) hash_collection \<times> u64) option" where
  "size_buckets c [] alive = Some (c, alive)"
| "size_buckets c (i # is) alive =
     (case bucket_count_alive c (head_offset (buckets c i)) alive of
        None \<Rightarrow> None
      | Some (c', alive') \<Rightarrow> size_buckets c' is alive')"

partial_function (option) bucket_forEach ::
  "('a ShmNode_scheme) hash_collection \<Rightarrow> ('a ShmNode_scheme \<Rightarrow> 'p) \<Rightarrow> ('p \<Rightarrow> bool) \<Rightarrow> int \<Rightarrow>
     'p list \<Rightarrow> (('a ShmNode_scheme) hash_collection \<times> 'p list \<times> bool) option" where
  "bucket_forEach c payload callback current calls =
     (if current \<ge> 0 then
        (if is_alive (current_timestamp_ns c) (entry (mem c current)) then
           (if \<not> callback (payload (mem c current))
            then Some (checked (entry (mem c current)) c, calls @ [payload (mem c current)], False)
            else bucket_forEach (checked (entry (mem c current)) c) payload callback
                   (next_offset (mem c current)) (calls @ [payload (mem c current)]))
         else bucket_forEach (checked (entry (mem c current)) c) payload callback
                (next_offset (mem c current)) calls)
      else Some (c, calls, True))"

fun forEach_buckets ::
  "('a ShmNode_scheme) hash_collection \<Rightarrow> ('a ShmNode_scheme \<Rightarrow> 'p) \<Rightarrow> ('p \<Rightarrow> bool) \<Rightarrow>
     nat list \<Rightarrow> 'p list \<Rightarrow> (('a ShmNode_scheme) hash_collection \<times> 'p list) option" where
  "forEach_buckets c payload callback [] calls = Some (c, calls)"
| "forEach_buckets c payload callback (i # is) calls =
     (case bucket_forEach c payload callback (head_offset (buckets c i)) calls of
        None \<Rightarrow> None
      | Some (c', calls', False) \<Rightarrow> Some (c', calls')
      | Some (c', calls', True) \<Rightarrow> forEach_buckets c' payload callback is calls')"

definition all_buckets :: "'n hash_collection \<Rightarrow> nat list" where
  "all_buckets c = [0 ..< unat (bucket_count (header c))]"

definition bucket_size_add :: "u32 \<Rightarrow> nat \<Rightarrow> 'n hash_collection \<Rightarrow> 'n hash_collection" where
  "bucket_size_add d i c =
     c\<lparr>buckets := (buckets c)(i := (buckets c i)\<lparr>bucket_size := bucket_size (buckets c i) + d\<rparr>)\<rparr>"

definition set_head :: "nat \<Rightarrow> int \<Rightarrow> 'n hash_collection \<Rightarrow> 'n hash_collection" where
  "set_head i off c = c\<lparr>buckets := (buckets c)(i := (buckets c i)\<lparr>head_offset := off\<rparr>)\<rparr>"

text \<open>
  Splicing a new record in at the head of a bucket chain and taking a record out of
  its chain, as \<open>add\<close>, \<open>put\<close>, \<open>putIfAbsent\<close> and the two \<open>remove\<close> functions of the
  map write it out each time. \<open>unlink_after\<close> goes by the node the search visited
  before (\<open>prev\<close>, a pointer), \<open>unlink_by_prev_offset\<close> by the record's own
  \<open>prev_offset\<close>.
\<close>

definition link_at_head ::
  "nat \<Rightarrow> int \<Rightarrow> ('a ShmNode_scheme) hash_collection \<Rightarrow> ('a ShmNode_scheme) hash_collection" where
  "link_at_head bucket node_offset c =
     (let old_head = head_offset (buckets c bucket);
          m2 = set_prev (set_next (mem c) node_offset old_head) node_offset NULL_OFFSET;
          m3 = (if old_head \<ge> 0 then set_prev m2 old_head node_offset else m2)
      in bucket_size_add 1 bucket (set_head bucket node_offset (c\<lparr>mem := m3\<rparr>)))"

definition unlink_after ::
  "nat \<Rightarrow> int \<Rightarrow> int option \<Rightarrow> ('a ShmNode_scheme) hash_collection \<Rightarrow>
     ('a ShmNode_scheme) hash_collection" where
  "unlink_after bucket node prev c =
     (let next = next_offset (mem c node);
          c1 = (case prev of
                  Some p \<Rightarrow> c\<lparr>mem := set_next (mem c) p next\<rparr>
                | None \<Rightarrow> set_head bucket next c);
          c2 = (if next \<ge> 0
                then c1\<lparr>mem := set_prev (mem c1) next
                                 (case prev of Some p \<Rightarrow> p | None \<Rightarrow> NULL_OFFSET)\<rparr>
                else c1);
          c3 = free_node (Some node) (c2\<lparr>mem := set_deleted (mem c2) node\<rparr>)
      in bucket_size_add (- 1) bucket c3)"


section \<open>fc\_set.cpp\<close>

text \<open>
  \<open>find_in_bucket\<close> returns the first node that is alive and holds the bytes, and the
  node visited before it (\<open>prev_out\<close>). Every node it visits is tested with
  \<open>is_alive\<close> first.
\<close>

partial_function (option) FastSet_find_from ::
  "FastSet \<Rightarrow> u8 list \<Rightarrow> u32 \<Rightarrow> int \<Rightarrow> int option \<Rightarrow>
     (FastSet \<times> int option \<times> int option) option" where
  "FastSet_find_from c bs hash current prev =
     (if current \<ge> 0 then
        (if is_alive (current_timestamp_ns c) (entry (mem c current)) \<and> node_matches (mem c current) bs hash
         then Some (checked (entry (mem c current)) c, Some current, prev)
         else FastSet_find_from (checked (entry (mem c current)) c) bs hash
                (next_offset (mem c current)) (Some current))
      else Some (c, None, prev))"

definition FastSet_find_in_bucket ::
  "FastSet \<Rightarrow> nat \<Rightarrow> u8 list \<Rightarrow> u32 \<Rightarrow> (FastSet \<times> int option \<times> int option) option" where
  "FastSet_find_in_bucket c bucket bs hash =
     FastSet_find_from c bs hash (head_offset (buckets c bucket)) None"

definition FastSet_add ::
  "exn + int option \<Rightarrow> FastSet \<Rightarrow> u8 list option \<Rightarrow> i32 \<Rightarrow> (exn + (FastSet \<times> bool)) option" where
  "FastSet_add alloc c bytes ttl =
     (case bytes of
        None \<Rightarrow> Some (Inr (c, False))
      | Some bs \<Rightarrow>
          if length bs = 0 then Some (Inr (c, False))
          else
            (let hash = compute_hash bs;
                 bucket = get_bucket c hash
             in case FastSet_find_in_bucket c bucket bs hash of
                  None \<Rightarrow> None
                | Some (c1, Some existing, prev) \<Rightarrow>
                    if is_alive (current_timestamp_ns c1) (entry (mem c1 existing))
                    then Some (Inr (checked (entry (mem c1 existing)) c1, False))
                    else
                      (let c2 = checked (entry (mem c1 existing)) c1;
                           c3 = tick (c2\<lparr>mem := (mem c2)(existing := (mem c2 existing)
                                  \<lparr>entry := mark_valid (set_ttl (current_timestamp_ns c2) ttl (entry (mem c2 existing)))\<rparr>)\<rparr>)
                       in Some (Inr (count_write c3, True)))
                | Some (c1, None, prev) \<Rightarrow>
                    (case allocate_node alloc c1 of
                       Inl e \<Rightarrow> Some (Inl e)
                     | Inr (node_offset, c2) \<Rightarrow>
                         (let c3 = write_node node_offset bs ttl c2;
                              c4 = link_at_head bucket node_offset c3
                          in Some (Inr (count_write (touch (size_add 1 c4)), True))))))"

definition FastSet_size :: "FastSet \<Rightarrow> (FastSet \<times> u64) option" where
  "FastSet_size c = size_buckets c (all_buckets c) 0"

definition FastSet_forEach :: "FastSet \<Rightarrow> (u8 list \<Rightarrow> bool) \<Rightarrow> (FastSet \<times> u8 list list) option" where
  "FastSet_forEach c callback = forEach_buckets c node_payload callback (all_buckets c) []"

section \<open>fc\_map.cpp\<close>

text \<open>
  A key-value record holds the key bytes followed by the value bytes. The search of a
  bucket compares hash, key size and key bytes and does not look at the entry's state
  or expiry.
\<close>

definition kv_matches :: "ShmKeyValue \<Rightarrow> u8 list \<Rightarrow> u32 \<Rightarrow> bool" where
  "kv_matches kv k hash =
     (hash_code (entry kv) = hash \<and>
      unat (key_size kv) = length k \<and>
      take (length k) (data kv) = k)"

definition kv_key :: "ShmKeyValue \<Rightarrow> u8 list" where
  "kv_key kv = take (unat (key_size kv)) (data kv)"

definition kv_value :: "ShmKeyValue \<Rightarrow> u8 list" where
  "kv_value kv = take (unat (value_size kv)) (drop (unat (key_size kv)) (data kv))"

partial_function (option) FastMap_find_from ::
  "(int \<Rightarrow> ShmKeyValue) \<Rightarrow> u8 list \<Rightarrow> u32 \<Rightarrow> int \<Rightarrow> int option \<Rightarrow>
     (int option \<times> int option) option" where
  "FastMap_find_from h k hash current prev =
     (if current \<ge> 0 then
        (if kv_matches (h current) k hash then Some (Some current, prev)
         else FastMap_find_from h k hash (next_offset (h current)) (Some current))
      else Some (None, prev))"

definition FastMap_find_in_bucket ::
  "FastMap \<Rightarrow> nat \<Rightarrow> u8 list \<Rightarrow> u32 \<Rightarrow> (int option \<times> int option) option" where
  "FastMap_find_in_bucket c bucket k hash =
     FastMap_find_from (mem c) k hash (head_offset (buckets c bucket)) None"

definition allocate_kv :: "exn + int option \<Rightarrow> FastMap \<Rightarrow> exn + (int \<times> FastMap)" where
  "allocate_kv alloc c =
     (case alloc of
        Inl e \<Rightarrow> Inl e
      | Inr None \<Rightarrow> Inl (FastCollectionException MEMORY_ALLOCATION_FAILED)
      | Inr (Some p) \<Rightarrow>
          Inr (p, c\<lparr>mem := (mem c)(p := (mem c p)\<lparr>entry := ShmEntry_init,
                                                 next_offset := NULL_OFFSET,
                                                 prev_offset := NULL_OFFSET,
                                                 key_size := 0, value_size := 0\<rparr>),
                     live := insert p (live c)\<rparr>))"

definition copy_to_kv :: "u64 \<Rightarrow> ShmKeyValue \<Rightarrow> u8 list \<Rightarrow> u8 list \<Rightarrow> i32 \<Rightarrow> ShmKeyValue" where
  "copy_to_kv t kv k v ttl =
     kv\<lparr>key_size := of_nat (length k),
        value_size := of_nat (length v),
        entry := mark_valid (set_ttl t ttl
                   ((entry kv)\<lparr>data_size := of_nat (length k + length v),
                               hash_code := compute_hash k\<rparr>)),
        data := memcpy_at (memcpy_at (data kv) 0 k) (length k) v\<rparr>"

definition write_kv :: "int \<Rightarrow> u8 list \<Rightarrow> u8 list \<Rightarrow> i32 \<Rightarrow> FastMap \<Rightarrow> FastMap" where
  "write_kv node k v ttl c =
     tick (c\<lparr>mem := (mem c)(node := copy_to_kv (current_timestamp_ns c) (mem c node) k v ttl)\<rparr>)"

text \<open>
  The replacement of a record by a new one of another value size, as \<open>put\<close> and
  \<open>replace\<close> write it out: the links of the old record are read first, the new record
  is allocated, written and given the old one's place, the old one is marked deleted
  and freed.
\<close>

definition reallocate_kv ::
  "exn + int option \<Rightarrow> nat \<Rightarrow> int \<Rightarrow> u8 list \<Rightarrow> u8 list \<Rightarrow> i32 \<Rightarrow> FastMap \<Rightarrow> exn + FastMap" where
  "reallocate_kv alloc bucket existing k v ttl c =
     (let prev_off = prev_offset (mem c existing);
          next_off = next_offset (mem c existing)
      in case allocate_kv alloc c of
           Inl e \<Rightarrow> Inl e
         | Inr (new_offset, c1) \<Rightarrow>
             (let c2 = write_kv new_offset k v ttl c1;
                  c3 = c2\<lparr>mem := set_next (set_prev (mem c2) new_offset prev_off) new_offset next_off\<rparr>;
                  c4 = (if prev_off \<ge> 0 then c3\<lparr>mem := set_next (mem c3) prev_off new_offset\<rparr>
                        else set_head bucket new_offset c3);
                  c5 = (if next_off \<ge> 0 then c4\<lparr>mem := set_prev (mem c4) next_off new_offset\<rparr>
                        else c4)
              in Inr (free_node (Some existing) (c5\<lparr>mem := set_deleted (mem c5) existing\<rparr>))))"




text \<open>
  \<open>get\<close>: the walk tests every record with \<open>is_alive\<close> and then compares the key. The
  result is the flag and the caller's \<open>out_value\<close>.
\<close>

partial_function (option) FastMap_get_from ::
  "FastMap \<Rightarrow> u8 list \<Rightarrow> u32 \<Rightarrow> int \<Rightarrow> (FastMap \<times> int option) option" where
  "FastMap_get_from c k hash current =
     (if current \<ge> 0 then
        (if is_alive (current_timestamp_ns c) (entry (mem c current)) \<and> kv_matches (mem c current) k hash
         then Some (checked (entry (mem c current)) c, Some current)
         else FastMap_get_from (checked (entry (mem c current)) c) k hash
                (next_offset (mem c current)))
      else Some (c, None))"

definition get :: "FastMap \<Rightarrow> u8 list option \<Rightarrow> u8 list \<Rightarrow> (FastMap \<times> bool \<times> u8 list) option" where
  "get c key out_value =
     (case key of
        None \<Rightarrow> Some (c, False, out_value)
      | Some k \<Rightarrow>
          if length k = 0 then Some (c, False, out_value)
          else
            (let hash = compute_hash k;
                 bucket = get_bucket c hash
             in case FastMap_get_from c k hash (head_offset (buckets c bucket)) of
                  None \<Rightarrow> None
                | Some (c1, Some kv) \<Rightarrow> Some (count_hit c1, True, kv_value (mem c1 kv))
                | Some (c1, None) \<Rightarrow> Some (count_read_miss c1, False, out_value)))"

text \<open>
  \<open>remove(key, out_value)\<close>: \<open>out_value\<close> is the caller's optional vector, \<open>None\<close> for
  a null pointer. \<open>is_alive\<close> is called only when the pointer is not null.
\<close>

definition remove ::
  "FastMap \<Rightarrow> u8 list option \<Rightarrow> u8 list option \<Rightarrow> (FastMap \<times> bool \<times> u8 list option) option" where
  "remove c key out_value =
     (case key of
        None \<Rightarrow> Some (c, False, out_value)
      | Some k \<Rightarrow>
          if length k = 0 then Some (c, False, out_value)
          else
            (let hash = compute_hash k;
                 bucket = get_bucket c hash
             in case FastMap_find_in_bucket c bucket k hash of
                  None \<Rightarrow> None
                | Some (None, prev) \<Rightarrow> Some (c, False, out_value)
                | Some (Some kv, prev) \<Rightarrow>
                    (let out = (case out_value of
                                  None \<Rightarrow> None
                                | Some old \<Rightarrow>
                                    if is_alive (current_timestamp_ns c) (entry (mem c kv))
                                    then Some (kv_value (mem c kv)) else Some old);
                         c1 = (case out_value of
                                 None \<Rightarrow> c
                               | Some old \<Rightarrow> checked (entry (mem c kv)) c);
                         c2 = unlink_after bucket kv prev c1
                     in Some (touch (size_add (- 1) c2), True, out))))"

text \<open>\<open>remove(key, expected_value)\<close>, the conditional removal.\<close>

definition remove_expected ::
  "FastMap \<Rightarrow> u8 list option \<Rightarrow> u8 list \<Rightarrow> (FastMap \<times> bool) option" where
  "remove_expected c key expected_value =
     (case key of
        None \<Rightarrow> Some (c, False)
      | Some k \<Rightarrow>
          if length k = 0 then Some (c, False)
          else
            (let hash = compute_hash k;
                 bucket = get_bucket c hash
             in case FastMap_find_in_bucket c bucket k hash of
                  None \<Rightarrow> None
                | Some (None, prev) \<Rightarrow> Some (c, False)
                | Some (Some kv, prev) \<Rightarrow>
                    if \<not> is_alive (current_timestamp_ns c) (entry (mem c kv))
                    then Some (checked (entry (mem c kv)) c, False)
                    else
                      (let c1 = checked (entry (mem c kv)) c in
                       if unat (value_size (mem c1 kv)) \<noteq> length expected_value \<or>
                          take (length expected_value) (drop (unat (key_size (mem c1 kv))) (data (mem c1 kv)))
                            \<noteq> expected_value
                       then Some (c1, False)
                       else Some (touch (size_add (- 1) (unlink_after bucket kv prev c1)), True))))"

text \<open>\<open>replace(key, value, ttl)\<close>: only an alive record is replaced.\<close>

definition replace ::
  "exn + int option \<Rightarrow> FastMap \<Rightarrow> u8 list option \<Rightarrow> u8 list \<Rightarrow> i32 \<Rightarrow>
     (exn + (FastMap \<times> bool)) option" where
  "replace alloc c key v ttl =
     (case key of
        None \<Rightarrow> Some (Inr (c, False))
      | Some k \<Rightarrow>
          if length k = 0 then Some (Inr (c, False))
          else
            (let hash = compute_hash k;
                 bucket = get_bucket c hash
             in case FastMap_find_in_bucket c bucket k hash of
                  None \<Rightarrow> None
                | Some (None, prev) \<Rightarrow> Some (Inr (c, False))
                | Some (Some kv, prev) \<Rightarrow>
                    if \<not> is_alive (current_timestamp_ns c) (entry (mem c kv))
                    then Some (Inr (checked (entry (mem c kv)) c, False))
                    else
                      (let c0 = checked (entry (mem c kv)) c in
                       if unat (value_size (mem c0 kv)) = length v then
                         (let c1 = c0\<lparr>mem := (mem c0)(kv := (mem c0 kv)
                                      \<lparr>data := memcpy_at (data (mem c0 kv)) (length k) v\<rparr>)\<rparr>;
                              c2 = tick (c1\<lparr>mem := (mem c1)(kv := (mem c1 kv)
                                      \<lparr>entry := set_ttl (current_timestamp_ns c1) ttl (entry (mem c1 kv))\<rparr>)\<rparr>)
                          in Some (Inr (count_write (touch c2), True)))
                       else
                         (case reallocate_kv alloc bucket kv k v ttl c0 of
                            Inl e \<Rightarrow> Some (Inl e)
                          | Inr c1 \<Rightarrow> Some (Inr (count_write (touch c1), True))))))"

definition kv_payload :: "ShmKeyValue \<Rightarrow> u8 list \<times> u8 list" where
  "kv_payload kv = (kv_key kv, kv_value kv)"

definition FastMap_size :: "FastMap \<Rightarrow> (FastMap \<times> u64) option" where
  "FastMap_size c = size_buckets c (all_buckets c) 0"

definition FastMap_forEach ::
  "FastMap \<Rightarrow> (u8 list \<times> u8 list \<Rightarrow> bool) \<Rightarrow> (FastMap \<times> (u8 list \<times> u8 list) list) option" where
  "FastMap_forEach c callback = forEach_buckets c kv_payload callback (all_buckets c) []"


section \<open>Vocabulary of the statements about the queue\<close>




definition fronts_unlinked :: "FastQueue \<Rightarrow> FastQueue \<Rightarrow> int list \<Rightarrow> int list \<Rightarrow> bool" where
  "fronts_unlinked q q' pre rest =
     (chain (mem q') (front_offset (header q')) rest \<and>
      live q' = live q - set pre \<and>
      hdr_size (header q') = hdr_size (header q) - of_nat (length pre) \<and>
      st_size (stats q') = st_size (stats q) - of_nat (length pre) \<and>
      back_offset (header q') =
        (if pre \<noteq> [] \<and> rest = [] then NULL_OFFSET else back_offset (header q)) \<and>
      (\<forall>b\<in>set pre. state (entry (mem q' b)) = STATE_DELETED) \<and>
      (\<forall>b. b \<notin> set pre \<longrightarrow>
           mem q' b = (if pre \<noteq> [] \<and> b \<in> set (take 1 rest)
                       then (mem q b)\<lparr>prev_offset := NULL_OFFSET\<rparr> else mem q b)))"

section \<open>Example states\<close>

text \<open>
  Concrete inputs on which the theorems below are instantiated. \<open>late_clock n\<close> reads
  1000 ns for the first \<open>n\<close> readings and two seconds from then on. The containers are
  built by the operations themselves from an empty mapping: the constructor has taken
  reading 0, each insertion takes two readings.
\<close>

definition late_clock :: "nat \<Rightarrow> nat \<Rightarrow> u64" where
  "late_clock n i = (if i < n then 1000 else 2000000000)"

definition blank_node :: ShmNode where
  "blank_node =
     \<lparr>entry = ShmEntry_init, next_offset = NULL_OFFSET, prev_offset = NULL_OFFSET, data = []\<rparr>"

definition stats_init :: CollectionStats where
  "stats_init =
     \<lparr>st_size = 0, st_read_count = 0, st_write_count = 0, st_hit_count = 0, st_miss_count = 0\<rparr>"




definition empty_list :: "(nat \<Rightarrow> u64) \<Rightarrow> FastList" where
  "empty_list clk =
     \<lparr>header = ListHeader_init (clk 0), mem = (\<lambda>a. blank_node), live = {}, stats = stats_init,
      clock = clk, ticks = 1,
      access_cache = \<lparr>last_index = SIZE_MAX, last_offset = - 1\<rparr>\<rparr>"

text \<open>
  A list after \<open>add("A", ttl = 1)\<close>, placed at offset 64, and \<open>add("B")\<close> with no expiry,
  placed at offset 128. Its next clock reading is the fifth.
\<close>

definition list_example :: "(nat \<Rightarrow> u64) \<Rightarrow> FastList" where
  "list_example clk =
     (case FastList_add (Inr (Some 64)) (empty_list clk) (Some [65]) 1 of
        Inr (l, ok) \<Rightarrow>
          (case FastList_add (Inr (Some 128)) l (Some [66]) TTL_INFINITE of
             Inr (l', ok') \<Rightarrow> l'
           | Inl e \<Rightarrow> l)
      | Inl e \<Rightarrow> empty_list clk)"

text \<open>
  What a call of \<open>add(index, ...)\<close> returned, and what \<open>forEach\<close> enumerates in the list
  it left.
\<close>

definition added_then_enumerated ::
  "(exn + (FastList \<times> bool)) option \<Rightarrow> (bool \<times> (u8 list \<times> u64) list) option" where
  "added_then_enumerated r =
     (case r of
        Some (Inr (l, ok)) \<Rightarrow>
          (case FastList_forEach l (\<lambda>bs i. True) of
             Some (l', calls) \<Rightarrow> Some (ok, calls)
           | None \<Rightarrow> None)
      | _ \<Rightarrow> None)"


definition empty_set :: "(nat \<Rightarrow> u64) \<Rightarrow> FastSet" where
  "empty_set clk =
     \<lparr>header = HashTableHeader_init (clk 0) 2, mem = (\<lambda>a. blank_node), live = {},
      stats = stats_init, clock = clk, ticks = 1, buckets = (\<lambda>i. ShmBucket_init)\<rparr>"

text \<open>
  A set of two buckets after \<open>add("A", ttl = 1)\<close>, placed at offset 64. Its next clock
  reading is the third.
\<close>

definition set_example :: "(nat \<Rightarrow> u64) \<Rightarrow> FastSet" where
  "set_example clk =
     (case FastSet_add (Inr (Some 64)) (empty_set clk) (Some [65]) 1 of
        Some (Inr (s, ok)) \<Rightarrow> s
      | _ \<Rightarrow> empty_set clk)"

text \<open>
  What a call of the set's \<open>add\<close> returned and left: the flag, the allocated blocks, the
  head of the bucket of \<open>bs\<close> and the records at the offsets 64 and 128.
\<close>

definition added_to_set ::
  "u8 list \<Rightarrow> (exn + (FastSet \<times> bool)) option \<Rightarrow>
     (bool \<times> int set \<times> int \<times> ShmNode \<times> ShmNode) option" where
  "added_to_set bs r =
     (case r of
        Some (Inr (s, ok)) \<Rightarrow>
          Some (ok, live s, head_offset (buckets s (get_bucket s (compute_hash bs))),
                mem s 64, mem s 128)
      | _ \<Rightarrow> None)"

chapter \<open>Properties\<close>

section \<open>Entry lifecycle and TTL\<close>

lemma sint_minus_one_neg: "sint (- 1 :: i32) < 0"
  by simp

lemma set_ttl_zero_expires: "expires_at (set_ttl t 0 e) = t"
  by (simp add: set_ttl_def)

lemma set_ttl_infinite_fields:
  "expires_at (set_ttl t (- 1) e) = 0 \<and> ttl_seconds (set_ttl t (- 1) e) = - 1"
  by (simp add: set_ttl_def)

text \<open>
  Claim C5. An entry written with \<open>ttl_seconds = 0\<close> at clock reading \<open>t\<close> (a count of
  nanoseconds since the clock's epoch, hence not 0) is not alive at any reading
  \<open>now \<ge> t\<close>, in particular at every strictly later one, and it counts as expired
  there. An entry written with \<open>ttl_seconds = -1\<close> is alive at every clock reading, is
  never expired, and \<open>remaining_ttl_seconds\<close> (what every \<open>getTTL\<close> returns for a
  found entry) is \<open>-1\<close> at every clock reading.
\<close>

theorem ttl_zero_absent_ttl_infinite_forever:
  "(t \<noteq> 0 \<and> t \<le> now \<longrightarrow>
      \<not> is_alive now (mark_valid (set_ttl t 0 e)) \<and>
      is_expired now (mark_valid (set_ttl t 0 e))) \<and>
   is_alive now (mark_valid (set_ttl t TTL_INFINITE e)) \<and>
   \<not> is_expired now (mark_valid (set_ttl t TTL_INFINITE e)) \<and>
   remaining_ttl_seconds now (mark_valid (set_ttl t TTL_INFINITE e)) = - 1"
  by (simp add: is_alive_def is_expired_def is_valid_def mark_valid_def set_ttl_def
      remaining_ttl_seconds_def TTL_INFINITE_def STATE_VALID_def STATE_EXPIRED_def
      not_less)

theorem ttl_zero_absent_ttl_infinite_forever_witness:
  "(100 :: u64) \<noteq> 0 \<and> (100 :: u64) \<le> 101 \<and>
   \<not> is_alive 101 (mark_valid (set_ttl 100 0 ShmEntry_init)) \<and>
   is_expired 101 (mark_valid (set_ttl 100 0 ShmEntry_init)) \<and>
   is_alive 101 (mark_valid (set_ttl 100 TTL_INFINITE ShmEntry_init)) \<and>
   remaining_ttl_seconds 101 (mark_valid (set_ttl 100 TTL_INFINITE ShmEntry_init)) = - 1"
  using ttl_zero_absent_ttl_infinite_forever [of 100 101 ShmEntry_init]
  by simp

section \<open>The mapped-file manager\<close>




text \<open>
  Claim C2. A file created by any of the five constructors holds its header under the
  name \<open>list_header\<close>, \<open>set_header\<close>, \<open>map_header\<close>, \<open>queue_header\<close> or
  \<open>stack_header\<close>; \<open>isValidCollectionFile\<close> looks for an object named \<open>header\<close>,
  finds none and answers \<open>false\<close> for each of them, although magic and version are
  those the claim asks for.
\<close>

theorem container_files_fail_validity_check:
  "map_sum id (\<lambda>fs'. isValidCollectionFile True fs' p) (FastList_ctor True now fs p True) = Inr False \<and>
   map_sum id (\<lambda>fs'. isValidCollectionFile True fs' p) (FastSet_ctor True now fs p True n) = Inr False \<and>
   map_sum id (\<lambda>fs'. isValidCollectionFile True fs' p) (FastMap_ctor True now fs p True n) = Inr False \<and>
   map_sum id (\<lambda>fs'. isValidCollectionFile True fs' p) (FastQueue_ctor True now fs p True) = Inr False \<and>
   map_sum id (\<lambda>fs'. isValidCollectionFile True fs' p) (FastStack_ctor True now fs p True) = Inr False"
  by (simp add: FastList_ctor_def FastSet_ctor_def FastMap_ctor_def FastQueue_ctor_def
      FastStack_ctor_def MMapFileManager_ctor_def isValidCollectionFile_def
      find_ListHeader_def find_HashTableHeader_def find_DequeHeader_def find_ShmBucket_def
      find_atomic_u64_def find_CollectionHeader_def construct_buckets_def
      construct_aba_tag_def Let_def)

section \<open>Chains of records\<close>









section \<open>The queue\<close>

lemma checked_fields [simp]:
  "mem (checked e q) = mem q" "live (checked e q) = live q" "header (checked e q) = header q"
  "stats (checked e q) = stats q" "clock (checked e q) = clock q"
  by (simp_all add: checked_def tick_def)


lemma unlink_front_clock [simp]:
  "clock (queue_unlink_front a q) = clock q" "ticks (queue_unlink_front a q) = ticks q"
  by (simp_all add: queue_unlink_front_def Let_def size_add_def free_node_def)

lemma fronts_unlinked_right:
  "mem q2 = mem q1 \<Longrightarrow> live q2 = live q1 \<Longrightarrow>
   front_offset (header q2) = front_offset (header q1) \<Longrightarrow>
   back_offset (header q2) = back_offset (header q1) \<Longrightarrow>
   hdr_size (header q2) = hdr_size (header q1) \<Longrightarrow>
   st_size (stats q2) = st_size (stats q1) \<Longrightarrow>
   fronts_unlinked q q2 p r = fronts_unlinked q q1 p r"
  by (simp add: fronts_unlinked_def)


lemma fronts_unlinked_counters [simp]:
  "fronts_unlinked q (count_miss q') p r = fronts_unlinked q q' p r"
  "fronts_unlinked q (count_hit q') p r = fronts_unlinked q q' p r"
  "fronts_unlinked q (touch q') p r = fronts_unlinked q q' p r"
  "fronts_unlinked q (checked e q') p r = fronts_unlinked q q' p r"
  by (simp_all add: fronts_unlinked_def count_miss_def count_hit_def touch_def tick_def)

lemma fronts_unlinked_none:
  "chain (mem q) (front_offset (header q)) as \<Longrightarrow> fronts_unlinked q q [] as"
  by (simp add: fronts_unlinked_def)














lemmas entry_tests = is_expired_def is_alive_def is_valid_def reads_clock_def checked_def tick_def
  current_timestamp_ns_def late_clock_def STATE_VALID_def STATE_EXPIRED_def




section \<open>Insertion of nothing\<close>


section \<open>The list\<close>

lemmas list_example_defs = list_example_def FastList_add_def empty_list_def allocate_node_def Let_def
     blank_node_def copy_to_node_def write_node_def set_next_def set_prev_def size_add_def
     touch_def tick_def current_timestamp_ns_def count_write_def ListHeader_init_def NULL_OFFSET_def
     memcpy_at_def stats_init_def ShmEntry_init_def set_ttl_def mark_valid_def TTL_INFINITE_def
     compute_hash_def late_clock_def link_node_def node_at_offset_def SIZE_MAX_def

lemmas count_alive_at = count_alive.simps [where current = 64] count_alive.simps [where current = 128]
  count_alive.simps [where current = 192] count_alive.simps [where current = "- 1"]

lemmas forEach_list_at =
  FastList_forEach_from.simps [where current = 64] FastList_forEach_from.simps [where current = 128]
  FastList_forEach_from.simps [where current = 192] FastList_forEach_from.simps [where current = "- 1"]

lemmas traverse_at =
  traverse_from_tail.simps [where current = 64] traverse_from_tail.simps [where current = 128]
  traverse_from_tail.simps [where current = 192] traverse_from_tail.simps [where current = "- 1"]
  traverse_from_head.simps [where current = 64] traverse_from_head.simps [where current = 128]
  traverse_from_head.simps [where current = 192] traverse_from_head.simps [where current = "- 1"]

lemmas add_at_defs = FastList_add_at_def addFirst_def node_at_index_def
  node_at_index_backward_def node_at_index_full_def cache_set_def node_payload_def

text \<open>
  Claim C3 does not hold of the code: \<open>add(index, ...)\<close> compares \<open>index\<close> with the
  header's \<open>size\<close> counter, which counts the expired nodes still linked, and the
  traversal from the tail starts counting at that counter less one. In the list of the
  example, \<open>A\<close> has expired and \<open>B\<close> is alive, so \<open>size()\<close> is 1. Then \<open>add(1, "C")\<close>
  returns \<open>true\<close> but does not append: \<open>forEach\<close> enumerates \<open>C\<close> before \<open>B\<close>. And
  \<open>add(2, "C")\<close>, whose index exceeds the visible size, returns \<open>true\<close> and appends.
\<close>

theorem list_add_at_index_counts_expired_nodes:
  "map_option snd (FastList_size (list_example (late_clock 5))) = Some 1 \<and>
   added_then_enumerated
     (FastList_add_at (Inr (Some 192)) (list_example (late_clock 5)) 1 (Some [67]) TTL_INFINITE) =
     Some (True, [([67], 0), ([66], 1)]) \<and>
   added_then_enumerated
     (FastList_add_at (Inr (Some 192)) (list_example (late_clock 5)) 2 (Some [67]) TTL_INFINITE) =
     Some (True, [([66], 0), ([67], 1)])"
  by (simp add: FastList_size_def count_alive_at added_then_enumerated_def FastList_forEach_def
        add_at_defs traverse_at forEach_list_at list_example_defs entry_tests)

section \<open>The set\<close>

lemmas set_find_at =
  FastSet_find_from.simps [where current = 64] FastSet_find_from.simps [where current = 128]
  FastSet_find_from.simps [where current = "- 1"]

lemmas set_add_defs = FastSet_add_def FastSet_find_in_bucket_def get_bucket_def
  HashTableHeader_init_def ShmBucket_init_def allocate_node_def write_node_def copy_to_node_def
  link_at_head_def set_head_def bucket_size_add_def set_next_def set_prev_def size_add_def
  touch_def count_write_def memcpy_at_def set_ttl_def mark_valid_def ShmEntry_init_def
  compute_hash_def TTL_INFINITE_def NULL_OFFSET_def Let_def node_matches_def blank_node_def
  stats_init_def empty_set_def

text \<open>
  Claim C1 does not hold of the code: \<open>find_in_bucket\<close> passes over every record that
  is not alive, so \<open>add\<close> does not find the expired record with the same bytes and
  takes the branch that allocates. In the set of the example the record \<open>A\<close> at offset
  64 is in state Valid, past its \<open>expires_at\<close>, and heads the bucket of its bytes.
  \<open>add("A")\<close> returns \<open>true\<close>, but a new block (128) is allocated, written and linked at
  the head of the bucket, and the old record stays as it was, expired and linked behind
  the new one (only its \<open>prev_offset\<close> has changed).
\<close>

theorem set_add_allocates_beside_expired_record:
  "state (entry (mem (set_example (late_clock 3)) 64)) = STATE_VALID \<and>
   expires_at (entry (mem (set_example (late_clock 3)) 64))
     \<le> current_timestamp_ns (set_example (late_clock 3)) \<and>
   node_matches (mem (set_example (late_clock 3)) 64) [65] (compute_hash [65]) \<and>
   head_offset (buckets (set_example (late_clock 3))
     (get_bucket (set_example (late_clock 3)) (compute_hash [65]))) = 64 \<and>
   live (set_example (late_clock 3)) = {64} \<and>
   added_to_set [65]
     (FastSet_add (Inr (Some 128)) (set_example (late_clock 3)) (Some [65]) TTL_INFINITE) =
     Some (True, {128, 64}, 128,
           (mem (set_example (late_clock 3)) 64)\<lparr>prev_offset := 128\<rparr>,
           (copy_to_node 2000000000 blank_node [65] TTL_INFINITE)\<lparr>next_offset := 64\<rparr>)"
  by (simp add: added_to_set_def set_example_def set_add_defs set_find_at entry_tests)

end
